theory Spec2Isabelle
  imports Main
begin

section \<open>The recoverable morph (lib/morphs/recoverable.js)\<close>

text \<open>
  The morph adds four fields to a user schema and four operations to its model:
  the instance methods \<open>generateRecoveryToken\<close> and \<open>sendRecovery\<close>, and the statics
  \<open>requestRecover\<close> and \<open>recover\<close>. Every operation returns a promise and also takes an
  optional error-first callback \<open>done\<close>.

  The embedding passes the state explicitly. The state holds the stored documents and
  a trace of the effects the code performs on its collaborators (callback invocations,
  messages sent, hashing and save calls), in the order the code performs them. A promise
  is its settlement together with the state reached when it settles.
\<close>

subsection \<open>Data\<close>

text \<open>A JavaScript \<open>Date\<close>, as the epoch milliseconds that \<open>getTime()\<close> returns.\<close>

type_synonym date = int

text \<open>
  A document of the model. \<open>ident\<close> is the document's \<open>_id\<close>; \<open>email\<close> and \<open>password\<close>
  belong to the schema the morph is attached to; the last four fields are the ones
  \<open>schema.add\<close> declares, each with default \<open>null\<close> (\<open>None\<close>).
\<close>

record recoverable =
  ident :: nat
  email :: string
  password :: string
  recoveryToken :: "string option"
  recoveryTokenExpiryAt :: "date option"
  recoverySentAt :: "date option"
  recoveredAt :: "date option"

text \<open>
  The values the code throws or rejects with. \<open>Error m\<close> is \<open>new Error(m)\<close> (also the
  errors the collaborators report); \<open>TypeError\<close> is what JavaScript raises when a
  property of \<open>null\<close> is read; \<open>SyntaxError\<close> is what \<open>new RegExp\<close> raises on a
  malformed pattern. All of them are objects, hence truthy: the guard \<open>if (error)\<close> of
  the catch handlers always holds for them.
\<close>

datatype error = Error string | TypeError | SyntaxError

text \<open>\<open>options.recoverable\<close>: \<open>tokenType\<close> is \<open>None\<close> when the option is not set.\<close>

record recoverable_options =
  tokenLifeSpan :: int
  tokenType :: "string option"

text \<open>The effects on the collaborators, as the trace records them.\<close>

datatype event =
    Done_error error
  | Done_ok recoverable
  | Send string recoverable
  | EncryptPassword recoverable
  | Save recoverable

text \<open>
  What the code is given from outside: its options, the clock, and the collaborators
  that are not part of the morph. \<open>RegExp_i p\<close> is \<open>new RegExp(p, 'i')\<close> as the test it
  performs on a subject string, \<open>None\<close> when the constructor raises. The tokenizer is
  \<open>Utils.tokenizer(seed)\<close> with its two methods. \<open>hash\<close> is the hashing behind
  \<open>encryptPassword\<close>. \<open>randomatic i\<close> is the \<open>i\<close>-th random draw of the \<open>randomatic\<close>
  package. \<open>findOne_failure\<close> and \<open>save_failure\<close> are the errors of the persistence
  layer, \<open>None\<close> when the query or the write succeeds.
\<close>

record world =
  options :: recoverable_options
  now :: date
  RegExp_i :: "string \<Rightarrow> (string \<Rightarrow> bool) option"
  tokenizer_encrypt :: "string \<Rightarrow> string \<Rightarrow> string"
  tokenizer_match :: "string \<Rightarrow> string \<Rightarrow> string \<Rightarrow> bool"
  hash :: "string \<Rightarrow> error + string"
  randomatic :: "nat \<Rightarrow> nat"
  findOne_failure :: "error option"
  save_failure :: "recoverable \<Rightarrow> error option"

record state =
  db :: "recoverable list"
  trace :: "event list"

text \<open>
  How a call ends: the promise it returns resolves or rejects, or the call itself
  raises before any promise exists.
\<close>

datatype 'a outcome = Resolved 'a | Rejected error | Threw error

type_synonym 'a promise = "'a outcome \<times> state"

subsection \<open>Promise chains and callbacks\<close>

text \<open>
  \<open>p.then(f)\<close> runs \<open>f\<close> on the value of a resolved promise and skips it otherwise;
  \<open>p.catch(h)\<close> runs \<open>h\<close> on the reason of a rejected promise. A handler that throws
  yields a rejected promise, so handlers return promises here.
\<close>

definition then_p :: "'a promise \<Rightarrow> ('a \<Rightarrow> state \<Rightarrow> 'b promise) \<Rightarrow> 'b promise" where
  "then_p p f =
     (case p of
        (Resolved v, s) \<Rightarrow> f v s
      | (Rejected e, s) \<Rightarrow> (Rejected e, s)
      | (Threw e, s) \<Rightarrow> (Threw e, s))"

definition catch_p :: "'a promise \<Rightarrow> (error \<Rightarrow> state \<Rightarrow> 'a promise) \<Rightarrow> 'a promise" where
  "catch_p p h =
     (case p of
        (Rejected e, s) \<Rightarrow> h e s
      | (Resolved v, s) \<Rightarrow> (Resolved v, s)
      | (Threw e, s) \<Rightarrow> (Threw e, s))"

definition emit :: "event \<Rightarrow> state \<Rightarrow> state" where
  "emit ev s = s\<lparr>trace := trace s @ [ev]\<rparr>"

text \<open>\<open>if (done) { done(...) }\<close>: the callback is optional; \<open>done\<close> tells whether one was passed.\<close>

definition call_done :: "bool \<Rightarrow> event \<Rightarrow> state \<Rightarrow> state" where
  "call_done done ev s = (if done then emit ev s else s)"

subsection \<open>Collaborators\<close>

text \<open>\<open>Model.findOne(criteria).exec()\<close>: the first stored document that satisfies the criteria.\<close>

definition findOne :: "world \<Rightarrow> (recoverable \<Rightarrow> bool) \<Rightarrow> state \<Rightarrow> recoverable option promise" where
  "findOne w criteria s =
     (case findOne_failure w of
        Some err \<Rightarrow> (Rejected err, s)
      | None \<Rightarrow> (Resolved (find criteria (db s)), s))"

fun persist :: "recoverable \<Rightarrow> recoverable list \<Rightarrow> recoverable list" where
  "persist r [] = [r]"
| "persist r (x # xs) = (if ident x = ident r then r # xs else x # persist r xs)"

text \<open>\<open>recoverable.save()\<close>: writes the in-memory field values over the stored document.\<close>

definition save :: "world \<Rightarrow> recoverable \<Rightarrow> state \<Rightarrow> recoverable promise" where
  "save w r s =
     (case save_failure w r of
        Some err \<Rightarrow> (Rejected err, emit (Save r) s)
      | None \<Rightarrow> (Resolved r, (emit (Save r) s)\<lparr>db := persist r (db s)\<rparr>))"

text \<open>
  Modelled from the spec: \<open>encryptPassword\<close> is defined by another morph, which is not
  among the sources. Section 6: it "transforms the plaintext \<open>password\<close> field into a
  stored hash in place" and resolves with the entity; hashing failures propagate.
\<close>

definition encryptPassword :: "world \<Rightarrow> recoverable \<Rightarrow> state \<Rightarrow> recoverable promise" where
  "encryptPassword w r s =
     (case hash w (password r) of
        Inl err \<Rightarrow> (Rejected err, emit (EncryptPassword r) s)
      | Inr h \<Rightarrow> (Resolved (r\<lparr>password := h\<rparr>), emit (EncryptPassword r) s))"

text \<open>
  Modelled from the spec: \<open>Utils.addDays\<close> is in lib/utils, which is not among the
  sources. Section 4.1: "Computes \<open>expiry = now + tokenLifeSpanDays\<close>".
\<close>

definition addDays :: "world \<Rightarrow> int \<Rightarrow> date" where
  "addDays w n = now w + n * 86400000"

text \<open>
  Modelled from the spec: \<open>Utils.isAfter\<close> is in lib/utils, which is not among the
  sources. Section 4.1, step 2: the token is not expired when
  \<open>now <= recoveryTokenExpiryAt\<close>, and the code computes expired as
  \<open>!Utils.isAfter(new Date(), recoveryTokenExpiryAt)\<close>. The spec is silent on a
  \<open>null\<close> date; no instant counts as before it here (stage 3 of \<open>recover\<close> raises on a
  \<open>null\<close> expiry whatever this answer is).
\<close>

definition isAfter :: "date \<Rightarrow> date option \<Rightarrow> bool" where
  "isAfter first second = (case second of None \<Rightarrow> False | Some t \<Rightarrow> first \<le> t)"

text \<open>\<open>Number.prototype.toString\<close> on an integer: its decimal digits.\<close>

definition digit :: "nat \<Rightarrow> char" where
  "digit n = ''0123456789'' ! (n mod 10)"

fun digits :: "nat \<Rightarrow> string" where
  "digits n = (if n < 10 then [digit n] else digits (n div 10) @ [digit n])"

declare digits.simps [simp del]

definition toString :: "int \<Rightarrow> string" where
  "toString i = (if i < 0 then CHR ''-'' # digits (nat (- i)) else digits (nat i))"

text \<open>\<open>randomize('0', n)\<close> of the \<open>randomatic\<close> package: \<open>n\<close> random decimal digits.\<close>

definition randomize :: "world \<Rightarrow> nat \<Rightarrow> string" where
  "randomize w n = map (\<lambda>i. digit (randomatic w i)) [0..<n]"

text \<open>A character of a numeric string.\<close>

definition numeric :: "char \<Rightarrow> bool" where
  "numeric c = (c \<in> set ''0123456789'')"

subsection \<open>The morph\<close>

text \<open>
  \<open>getRecoveryToken(payload, tokenType)\<close>; the payload is
  \<open>{recoveryTokenExpiryAt, email}\<close>, passed here as two arguments.
\<close>

definition getRecoveryToken :: "world \<Rightarrow> date \<Rightarrow> string \<Rightarrow> string option \<Rightarrow> string" where
  "getRecoveryToken w expiryAt mail ttype =
     (if ttype = Some ''passcode'' then randomize w 6
      else tokenizer_encrypt w (toString expiryAt) mail)"

definition generateRecoveryToken :: "world \<Rightarrow> recoverable \<Rightarrow> bool \<Rightarrow> state \<Rightarrow> recoverable promise" where
  "generateRecoveryToken w this done s =
     (let expiryAt = addDays w (tokenLifeSpan (options w));
          r1 = this\<lparr>recoveryToken :=
                 Some (getRecoveryToken w expiryAt (email this) (tokenType (options w)))\<rparr>;
          r2 = r1\<lparr>recoveryTokenExpiryAt := Some expiryAt\<rparr>;
          r3 = r2\<lparr>recoveredAt := None\<rparr>
      in (Resolved r3, call_done done (Done_ok r3) s))"

text \<open>
  \<open>sendRecovery\<close>. A \<open>Date\<close> is truthy, so \<open>isRecovered\<close> is \<open>recoveredAt !== null\<close>.
  The \<open>send\<close> collaborator receives the subject and the document and then calls
  \<open>finish\<close> (section 6 of the spec: a notification dispatch with a completion callback).
\<close>

definition sendRecovery :: "world \<Rightarrow> recoverable \<Rightarrow> bool \<Rightarrow> state \<Rightarrow> recoverable promise" where
  "sendRecovery w this done s =
     (if recoveredAt this \<noteq> None then (Resolved this, call_done done (Done_ok this) s)
      else
        (let s1 = emit (Send ''Password recovery'' this) s;
             r1 = this\<lparr>recoverySentAt := Some (now w)\<rparr>
         in case save w r1 s1 of
              (Resolved _, s2) \<Rightarrow> (Resolved r1, call_done done (Done_ok r1) s2)
            | (Rejected err, s2) \<Rightarrow> (Rejected err, call_done done (Done_error err) s2)
            | (Threw err, s2) \<Rightarrow> (Threw err, s2)))"

text \<open>\<open>requestRecover\<close>: the chain of \<open>then\<close> handlers, and the whole call with its \<open>catch\<close>.\<close>

definition requestRecover_chain ::
  "world \<Rightarrow> (recoverable \<Rightarrow> bool) \<Rightarrow> bool \<Rightarrow> state \<Rightarrow> recoverable option promise" where
  "requestRecover_chain w criteria done s =
     then_p (then_p (then_p (then_p (findOne w criteria s)
       (\<lambda>found s1. case found of
            None \<Rightarrow> (Rejected (Error ''Invalid recovery details''), s1)
          | Some r \<Rightarrow> (Resolved r, s1)))
       (\<lambda>r s2. generateRecoveryToken w r False s2))
       (\<lambda>r s3. sendRecovery w r False s3))
       (\<lambda>r s4. (Resolved (Some r), call_done done (Done_ok r) s4))"

definition requestRecover ::
  "world \<Rightarrow> (recoverable \<Rightarrow> bool) \<Rightarrow> bool \<Rightarrow> state \<Rightarrow> recoverable option promise" where
  "requestRecover w criteria done s =
     catch_p (requestRecover_chain w criteria done s)
       (\<lambda>err s5. if done then (Resolved None, emit (Done_error err) s5)
                  else (Rejected err, s5))"

text \<open>
  \<open>recover\<close>. The query \<open>{recoveryToken: {$regex: token}}\<close> selects the documents whose
  stored token is a string that the pattern built from the input matches.
\<close>

definition token_query :: "(string \<Rightarrow> bool) \<Rightarrow> recoverable \<Rightarrow> bool" where
  "token_query token r = (case recoveryToken r of None \<Rightarrow> False | Some stored \<Rightarrow> token stored)"

definition recover_chain ::
  "world \<Rightarrow> (string \<Rightarrow> bool) \<Rightarrow> string \<Rightarrow> string \<Rightarrow> bool \<Rightarrow> state \<Rightarrow> recoverable option promise" where
  "recover_chain w token rawToken newPassword done s =
     then_p (then_p (then_p (then_p (then_p (findOne w (token_query token) s)
       (\<lambda>found s1.
          (Resolved found,
           if found = None then call_done done (Done_error (Error ''Invalid recovery token'')) s1
           else s1)))
       (\<lambda>found s2. case found of
            None \<Rightarrow> (Rejected TypeError, s2)
          | Some r \<Rightarrow>
              (Resolved r,
               if \<not> isAfter (now w) (recoveryTokenExpiryAt r)
               then call_done done (Done_error (Error ''Recovery token expired'')) s2
               else s2)))
       (\<lambda>r s3. case recoveryTokenExpiryAt r of
            None \<Rightarrow> (Rejected TypeError, s3)
          | Some expiryAt \<Rightarrow>
              (let val = toString expiryAt
               in (Resolved r,
                   if tokenType (options w) \<noteq> Some ''passcode''
                   then (if \<not> tokenizer_match w val rawToken (email r)
                         then call_done done (Done_error (Error ''Invalid recovery token'')) s3
                         else s3)
                   else s3))))
       (\<lambda>r s4. encryptPassword w (r\<lparr>password := newPassword\<rparr>) s4))
       (\<lambda>r s5.
          (let r1 = r\<lparr>recoveredAt := Some (now w)\<rparr>
           in then_p (save w r1 s5)
                (\<lambda>_ s6. (Resolved (Some r1), call_done done (Done_ok r1) s6))))"

definition recover ::
  "world \<Rightarrow> string \<Rightarrow> string \<Rightarrow> bool \<Rightarrow> state \<Rightarrow> recoverable option promise" where
  "recover w rawToken newPassword done s =
     (case RegExp_i w rawToken of
        None \<Rightarrow> (Threw SyntaxError, s)
      | Some token \<Rightarrow>
          catch_p (recover_chain w token rawToken newPassword done s)
            (\<lambda>err s7. (Rejected err, call_done done (Done_error err) s7)))"

subsection \<open>A concrete world\<close>

text \<open>
  One instance of the collaborators, on which the theorems below are run. Its pattern
  engine covers the patterns made of letters and digits only, where
  \<open>new RegExp(p, 'i').test(subject)\<close> is a case-insensitive search for \<open>p\<close> inside the
  subject; it declines every other pattern. Its tokenizer binds a token to the seed and
  the subject by concatenation.
\<close>

definition toLowerCase :: "char \<Rightarrow> char" where
  "toLowerCase c =
     (case map_of (zip ''ABCDEFGHIJKLMNOPQRSTUVWXYZ'' ''abcdefghijklmnopqrstuvwxyz'') c of
        Some l \<Rightarrow> l
      | None \<Rightarrow> c)"

definition alphanumeric :: "char \<Rightarrow> bool" where
  "alphanumeric c =
     (c \<in> set ''ABCDEFGHIJKLMNOPQRSTUVWXYZabcdefghijklmnopqrstuvwxyz0123456789'')"

fun startsWith :: "string \<Rightarrow> string \<Rightarrow> bool" where
  "startsWith subject [] = True"
| "startsWith [] (p # ps) = False"
| "startsWith (c # cs) (p # ps) = (c = p \<and> startsWith cs ps)"

fun contains :: "string \<Rightarrow> string \<Rightarrow> bool" where
  "contains [] p = (p = [])"
| "contains (c # cs) p = (startsWith (c # cs) p \<or> contains cs p)"

definition literal_test :: "string \<Rightarrow> string \<Rightarrow> bool" where
  "literal_test p subject = contains (map toLowerCase subject) (map toLowerCase p)"

definition literal_RegExp_i :: "string \<Rightarrow> (string \<Rightarrow> bool) option" where
  "literal_RegExp_i p = (if list_all alphanumeric p then Some (literal_test p) else None)"

definition concat_encrypt :: "string \<Rightarrow> string \<Rightarrow> string" where
  "concat_encrypt seed subject = ''t'' @ seed @ filter alphanumeric subject"

definition concat_match :: "string \<Rightarrow> string \<Rightarrow> string \<Rightarrow> bool" where
  "concat_match seed token subject = (token = concat_encrypt seed subject)"

text \<open>The world whose clock reads \<open>t\<close> and whose \<open>tokenType\<close> option is \<open>ty\<close>.\<close>

definition world_at :: "date \<Rightarrow> string option \<Rightarrow> world" where
  "world_at t ty =
     \<lparr>options = \<lparr>tokenLifeSpan = 1, tokenType = ty\<rparr>,
      now = t,
      RegExp_i = literal_RegExp_i,
      tokenizer_encrypt = concat_encrypt,
      tokenizer_match = concat_match,
      hash = (\<lambda>p. Inr (''hashed'' @ p)),
      randomatic = (\<lambda>i. 7 * i + 3),
      findOne_failure = None,
      save_failure = (\<lambda>r. None)\<rparr>"

text \<open>
  A user whose token was issued at instant 1000 with a life span of one day, and one
  who completed a recovery at instant 500.
\<close>

definition alice :: recoverable where
  "alice =
     \<lparr>ident = 1, email = ''a@x.com'', password = ''oldhash'',
      recoveryToken = Some ''t86401000axcom'',
      recoveryTokenExpiryAt = Some 86401000,
      recoverySentAt = Some 1000,
      recoveredAt = None\<rparr>"

definition bob :: recoverable where
  "bob =
     \<lparr>ident = 2, email = ''b@x.com'', password = ''bobhash'',
      recoveryToken = Some ''482913'',
      recoveryTokenExpiryAt = Some 86400400,
      recoverySentAt = Some 400,
      recoveredAt = Some 500\<rparr>"

text \<open>
  A third user, whose address extends the first one's: the token this tokenizer issues
  her for the same expiry, \<open>t86401000axcomau\<close>, contains the first user's token.
\<close>

definition carol :: recoverable where
  "carol =
     \<lparr>ident = 3, email = ''a@x.com.au'', password = ''carolhash'',
      recoveryToken = Some ''t86401000axcomau'',
      recoveryTokenExpiryAt = Some 86401000,
      recoverySentAt = Some 1000,
      recoveredAt = None\<rparr>"

definition by_email :: "string \<Rightarrow> recoverable \<Rightarrow> bool" where
  "by_email mail r = (email r = mail)"

section \<open>Properties\<close>

subsection \<open>Promise chains and lookups\<close>

lemma then_p_simps:
  "then_p (Resolved v, s) f = f v s"
  "then_p (Rejected e, s) f = (Rejected e, s)"
  "then_p (Threw e, s) f = (Threw e, s)"
  by (simp_all add: then_p_def)

lemma catch_p_simps:
  "catch_p (Resolved v, s) h = (Resolved v, s)"
  "catch_p (Rejected e, s) h = h e s"
  "catch_p (Threw e, s) h = (Threw e, s)"
  by (simp_all add: catch_p_def)

lemma find_filter_Nil: "filter P xs = [] \<Longrightarrow> find P xs = None"
  by (induction xs) (auto split: if_splits)

lemma find_filter_single: "filter P xs = [x] \<Longrightarrow> find P xs = Some x"
  by (induction xs) (auto split: if_splits)

subsection \<open>The instance methods\<close>

lemma generateRecoveryToken_eq:
  "generateRecoveryToken w r done s =
     (Resolved (r\<lparr>recoveryToken :=
                   Some (getRecoveryToken w (addDays w (tokenLifeSpan (options w))) (email r)
                           (tokenType (options w))),
                 recoveryTokenExpiryAt := Some (addDays w (tokenLifeSpan (options w))),
                 recoveredAt := None\<rparr>),
      s\<lparr>trace := trace s @
           (if done then
              [Done_ok (r\<lparr>recoveryToken :=
                   Some (getRecoveryToken w (addDays w (tokenLifeSpan (options w))) (email r)
                           (tokenType (options w))),
                 recoveryTokenExpiryAt := Some (addDays w (tokenLifeSpan (options w))),
                 recoveredAt := None\<rparr>)]
            else [])\<rparr>)"
  by (simp add: generateRecoveryToken_def call_done_def emit_def Let_def)

lemma sendRecovery_sends:
  assumes "recoveredAt r = None"
  shows "sendRecovery w r done s =
     (case save_failure w (r\<lparr>recoverySentAt := Some (now w)\<rparr>) of
        None \<Rightarrow>
          (Resolved (r\<lparr>recoverySentAt := Some (now w)\<rparr>),
           s\<lparr>db := persist (r\<lparr>recoverySentAt := Some (now w)\<rparr>) (db s),
             trace := trace s @ [Send ''Password recovery'' r,
                                 Save (r\<lparr>recoverySentAt := Some (now w)\<rparr>)]
                        @ (if done then [Done_ok (r\<lparr>recoverySentAt := Some (now w)\<rparr>)] else [])\<rparr>)
      | Some err \<Rightarrow>
          (Rejected err,
           s\<lparr>trace := trace s @ [Send ''Password recovery'' r,
                                 Save (r\<lparr>recoverySentAt := Some (now w)\<rparr>)]
                        @ (if done then [Done_error err] else [])\<rparr>))"
  using assms
  by (simp add: sendRecovery_def save_def call_done_def emit_def Let_def split: option.splits)

lemma digit_numeric: "numeric (digit n)"
proof -
  have "n mod 10 < length ''0123456789''" by simp
  then have "''0123456789'' ! (n mod 10) \<in> set ''0123456789''" by (rule nth_mem)
  then show ?thesis by (simp only: numeric_def digit_def)
qed

lemma randomize_numeric: "length (randomize w n) = n \<and> list_all numeric (randomize w n)"
  by (simp add: randomize_def list_all_iff digit_numeric)

subsection \<open>requestRecover\<close>

lemma requestRecover_chain_no_match:
  assumes "findOne_failure w = None" and "find criteria (db s) = None"
  shows "requestRecover_chain w criteria done s =
           (Rejected (Error ''Invalid recovery details''), s)"
  using assms by (simp add: requestRecover_chain_def findOne_def then_p_simps)

lemma requestRecover_chain_found:
  assumes "findOne_failure w = None" and "find criteria (db s) = Some r"
  shows "requestRecover_chain w criteria done s =
     then_p (sendRecovery w
               (r\<lparr>recoveryToken :=
                    Some (getRecoveryToken w (addDays w (tokenLifeSpan (options w))) (email r)
                            (tokenType (options w))),
                  recoveryTokenExpiryAt := Some (addDays w (tokenLifeSpan (options w))),
                  recoveredAt := None\<rparr>) False s)
       (\<lambda>r s4. (Resolved (Some r), call_done done (Done_ok r) s4))"
  using assms
  by (simp add: requestRecover_chain_def findOne_def then_p_simps generateRecoveryToken_eq)

subsection \<open>recover\<close>

text \<open>
  What \<open>recover\<close> does once stage 1 has found a document whose expiry is set, when
  hashing and saving succeed: stages 2 and 3 only report to the callback, and stages 4
  to 6 run whatever they reported.
\<close>

lemma recover_found:
  assumes "findOne_failure w = None"
    and "RegExp_i w rawToken = Some token"
    and "find (token_query token) (db s) = Some r"
    and "recoveryTokenExpiryAt r = Some t"
    and "hash w newPassword = Inr h"
    and "save_failure w (r\<lparr>password := h, recoveredAt := Some (now w)\<rparr>) = None"
  shows "recover w rawToken newPassword done s =
     (Resolved (Some (r\<lparr>password := h, recoveredAt := Some (now w)\<rparr>)),
      s\<lparr>db := persist (r\<lparr>password := h, recoveredAt := Some (now w)\<rparr>) (db s),
        trace := trace s
          @ (if done \<and> t < now w then [Done_error (Error ''Recovery token expired'')] else [])
          @ (if done \<and> tokenType (options w) \<noteq> Some ''passcode''
                \<and> \<not> tokenizer_match w (toString t) rawToken (email r)
             then [Done_error (Error ''Invalid recovery token'')] else [])
          @ [EncryptPassword (r\<lparr>password := newPassword\<rparr>),
             Save (r\<lparr>password := h, recoveredAt := Some (now w)\<rparr>)]
          @ (if done then [Done_ok (r\<lparr>password := h, recoveredAt := Some (now w)\<rparr>)] else [])\<rparr>)"
  using assms
  by (simp add: recover_def recover_chain_def findOne_def then_p_simps catch_p_simps
        isAfter_def encryptPassword_def save_def call_done_def emit_def Let_def)

text \<open>What \<open>recover\<close> does when stage 1 finds nothing: stage 2 reads a field of \<open>null\<close>.\<close>

lemma recover_not_found:
  assumes "findOne_failure w = None"
    and "RegExp_i w rawToken = Some token"
    and "find (token_query token) (db s) = None"
  shows "recover w rawToken newPassword done s =
     (Rejected TypeError,
      s\<lparr>trace := trace s
          @ (if done then [Done_error (Error ''Invalid recovery token''), Done_error TypeError]
             else [])\<rparr>)"
  using assms
  by (simp add: recover_def recover_chain_def findOne_def then_p_simps catch_p_simps
        call_done_def emit_def)

lemma recover_chain_ignores_tokenizer:
  assumes "tokenType (options w) = Some ''passcode''"
  shows "recover_chain (w\<lparr>tokenizer_match := m\<rparr>) token rawToken newPassword done s =
         recover_chain w token rawToken newPassword done s"
  using assms
  by (simp add: recover_chain_def findOne_def encryptPassword_def save_def Let_def
        cong: option.case_cong)

lemma recover_ignores_tokenizer:
  assumes "tokenType (options w) = Some ''passcode''"
  shows "recover (w\<lparr>tokenizer_match := m\<rparr>) rawToken newPassword done s =
         recover w rawToken newPassword done s"
  by (simp add: recover_def recover_chain_ignores_tokenizer [OF assms] cong: option.case_cong)

subsection \<open>Facts about the concrete world\<close>

lemma toString_86401000: "toString 86401000 = ''86401000''"
  by (simp add: toString_def digits.simps digit_def)

lemma literal_RegExp_i_alice:
  "RegExp_i (world_at c ty) ''t86401000axcom'' = Some (literal_test ''t86401000axcom'')"
  by (simp add: world_at_def literal_RegExp_i_def alphanumeric_def)

lemma literal_RegExp_i_bob:
  "RegExp_i (world_at c ty) ''482913'' = Some (literal_test ''482913'')"
  by (simp add: world_at_def literal_RegExp_i_def alphanumeric_def)

lemma literal_RegExp_i_zzz:
  "RegExp_i (world_at c ty) ''zzz'' = Some (literal_test ''zzz'')"
  by (simp add: world_at_def literal_RegExp_i_def alphanumeric_def)

lemma lookup_alice:
  "find (token_query (literal_test ''t86401000axcom'')) [bob, alice] = Some alice"
  by (simp add: token_query_def literal_test_def bob_def alice_def toLowerCase_def)

lemma lookup_bob:
  "find (token_query (literal_test ''482913'')) [bob, alice] = Some bob"
  by (simp add: token_query_def literal_test_def bob_def toLowerCase_def)

lemma lookup_zzz:
  "find (token_query (literal_test ''zzz'')) [bob, alice] = None"
  by (simp add: token_query_def literal_test_def bob_def alice_def toLowerCase_def)

lemma alice_token_matches:
  "tokenizer_match (world_at c ty) (toString 86401000) ''t86401000axcom'' (email alice)"
  by (simp add: world_at_def toString_86401000 concat_match_def concat_encrypt_def
        alice_def alphanumeric_def)

lemma lookup_carol_first:
  "find (token_query (literal_test ''t86401000axcom'')) [carol, alice] = Some carol"
  by (simp add: token_query_def literal_test_def carol_def toLowerCase_def)

lemma randomize_passcode: "randomize (world_at c ty) 6 = ''307418''"
  by (simp add: randomize_def world_at_def digit_def upt_conv_Cons)

section \<open>The claims\<close>

subsection \<open>generateRecoveryToken and sendRecovery\<close>

text \<open>
  C6: for every entity, also one whose \<open>recoveredAt\<close> is set, \<open>generateRecoveryToken\<close>
  resolves with the entity changed in three fields: \<open>recoveryToken\<close> is set to the
  generated token, \<open>recoveryTokenExpiryAt\<close> to now plus \<open>tokenLifeSpan\<close> days, and
  \<open>recoveredAt\<close> is cleared. It never rejects or raises, the stored documents are
  untouched, and the only effect is the callback, when one is passed: nothing is saved.
\<close>

theorem generateRecoveryToken_resolves:
  "\<exists>r' s'. generateRecoveryToken w r done s = (Resolved r', s')
     \<and> recoveryToken r' =
         Some (getRecoveryToken w (now w + tokenLifeSpan (options w) * 86400000) (email r)
                 (tokenType (options w)))
     \<and> recoveryTokenExpiryAt r' = Some (now w + tokenLifeSpan (options w) * 86400000)
     \<and> recoveredAt r' = None
     \<and> ident r' = ident r \<and> email r' = email r \<and> password r' = password r
     \<and> recoverySentAt r' = recoverySentAt r
     \<and> db s' = db s
     \<and> trace s' = trace s @ (if done then [Done_ok r'] else [])"
  by (simp add: generateRecoveryToken_eq addDays_def)

theorem generateRecoveryToken_resolves_witness:
  "recoveredAt bob = Some 500
   \<and> (\<exists>r' s'. generateRecoveryToken (world_at 1000 None) bob True \<lparr>db = [bob, alice], trace = []\<rparr>
                 = (Resolved r', s')
        \<and> recoveryToken r' = Some ''t86401000bxcom''
        \<and> recoveryTokenExpiryAt r' = Some 86401000
        \<and> recoveredAt r' = None
        \<and> db s' = [bob, alice]
        \<and> trace s' = [Done_ok r'])"
proof -
  from generateRecoveryToken_resolves
    [of "world_at 1000 None" bob True "\<lparr>db = [bob, alice], trace = []\<rparr>"]
  obtain r' s' where
    g: "generateRecoveryToken (world_at 1000 None) bob True \<lparr>db = [bob, alice], trace = []\<rparr>
          = (Resolved r', s')"
    and tok: "recoveryToken r' =
      Some (getRecoveryToken (world_at 1000 None)
             (now (world_at 1000 None) + tokenLifeSpan (options (world_at 1000 None)) * 86400000)
             (email bob) (tokenType (options (world_at 1000 None))))"
    and exp: "recoveryTokenExpiryAt r' =
      Some (now (world_at 1000 None) + tokenLifeSpan (options (world_at 1000 None)) * 86400000)"
    and rec: "recoveredAt r' = None"
    and st: "db s' = db \<lparr>db = [bob, alice], trace = []\<rparr>"
            "trace s' = trace \<lparr>db = [bob, alice], trace = []\<rparr> @ (if True then [Done_ok r'] else [])"
    by blast
  have t: "getRecoveryToken (world_at 1000 None) 86401000 (email bob) None = ''t86401000bxcom''"
    by (simp add: getRecoveryToken_def world_at_def toString_86401000 concat_encrypt_def
          bob_def alphanumeric_def)
  have "recoveryToken r' = Some ''t86401000bxcom''"
    using tok t by (simp add: world_at_def)
  moreover have "recoveryTokenExpiryAt r' = Some 86401000"
    using exp by (simp add: world_at_def)
  moreover have "recoveredAt bob = Some 500" by (simp add: bob_def)
  ultimately show ?thesis using g rec st by simp
qed

text \<open>
  C7: for every entity whose \<open>recoveredAt\<close> is set, \<open>sendRecovery\<close> resolves at once with
  that same entity, every field as it was. The stored documents are untouched and the
  only effect is the callback, when one is passed: nothing is sent and nothing is saved.
\<close>

theorem sendRecovery_backs_off:
  assumes "recoveredAt r \<noteq> None"
  shows "\<exists>s'. sendRecovery w r done s = (Resolved r, s')
     \<and> db s' = db s
     \<and> trace s' = trace s @ (if done then [Done_ok r] else [])"
  using assms by (simp add: sendRecovery_def call_done_def emit_def)

theorem sendRecovery_backs_off_witness:
  "recoveredAt bob \<noteq> None
   \<and> (\<exists>s'. sendRecovery (world_at 1000 None) bob False \<lparr>db = [bob, alice], trace = []\<rparr>
              = (Resolved bob, s')
        \<and> db s' = [bob, alice] \<and> trace s' = [])"
proof -
  have h: "recoveredAt bob \<noteq> None" by (simp add: bob_def)
  from sendRecovery_backs_off
    [OF h, of "world_at 1000 None" False "\<lparr>db = [bob, alice], trace = []\<rparr>"]
  show ?thesis using h by simp
qed

subsection \<open>requestRecover\<close>

text \<open>
  C5: when the lookup completes and no stored entity satisfies the criteria,
  \<open>requestRecover\<close> fails with the error \<open>Invalid recovery details\<close>: the error goes to
  the callback when one is passed (the promise then resolves with \<open>undefined\<close>), and is
  the rejection reason of the promise otherwise. Nothing is stored, sent or saved.
\<close>

theorem requestRecover_not_found:
  assumes "findOne_failure w = None" and "filter criteria (db s) = []"
  shows "requestRecover w criteria done s =
     (if done
      then (Resolved None, s\<lparr>trace := trace s @ [Done_error (Error ''Invalid recovery details'')]\<rparr>)
      else (Rejected (Error ''Invalid recovery details''), s))"
  using assms
  by (simp add: requestRecover_def requestRecover_chain_def findOne_def find_filter_Nil
        then_p_simps catch_p_simps emit_def)

theorem requestRecover_not_found_witness:
  "filter (by_email ''c@x.com'') [bob, alice] = []
   \<and> requestRecover (world_at 1000 None) (by_email ''c@x.com'') False
        \<lparr>db = [bob, alice], trace = []\<rparr>
       = (Rejected (Error ''Invalid recovery details''), \<lparr>db = [bob, alice], trace = []\<rparr>)"
proof -
  have h1: "findOne_failure (world_at 1000 None) = None" by (simp add: world_at_def)
  have f: "filter (by_email ''c@x.com'') [bob, alice] = []"
    by (simp add: by_email_def bob_def alice_def)
  then have h2: "filter (by_email ''c@x.com'') (db \<lparr>db = [bob, alice], trace = []\<rparr>) = []"
    by (simp only: state.select_convs)
  from requestRecover_not_found [OF h1 h2, of False]
  show ?thesis using f by simp
qed

text \<open>
  C4: when the lookup completes, exactly one stored entity satisfies the criteria, the
  write succeeds and the configured life span is positive, \<open>requestRecover\<close> resolves
  with that entity carrying a token (\<open>recoveryToken\<close> is not null), an expiry of now plus
  \<open>tokenLifeSpan\<close> days, which lies in the future, and a null \<open>recoveredAt\<close>; the entity
  it resolves with is the one written to the store.
\<close>

theorem requestRecover_issues_token:
  assumes "findOne_failure w = None"
    and "filter criteria (db s) = [r]"
    and "\<And>x. save_failure w x = None"
    and "0 < tokenLifeSpan (options w)"
  shows "\<exists>r' s'. requestRecover w criteria done s = (Resolved (Some r'), s')
     \<and> recoveryToken r' \<noteq> None
     \<and> (\<exists>t. recoveryTokenExpiryAt r' = Some t
              \<and> t = now w + tokenLifeSpan (options w) * 86400000 \<and> now w < t)
     \<and> recoveredAt r' = None
     \<and> ident r' = ident r \<and> email r' = email r
     \<and> db s' = persist r' (db s)"
proof -
  have found: "find criteria (db s) = Some r"
    using assms(2) by (rule find_filter_single)
  show ?thesis
    unfolding requestRecover_def requestRecover_chain_found [OF assms(1) found]
    using assms(3,4)
    by (simp add: sendRecovery_sends then_p_simps catch_p_simps call_done_def emit_def
          addDays_def)
qed

theorem requestRecover_issues_token_witness:
  "filter (by_email ''a@x.com'') [bob, alice] = [alice]
   \<and> 0 < tokenLifeSpan (options (world_at 1000 None))
   \<and> (\<exists>r' s'. requestRecover (world_at 1000 None) (by_email ''a@x.com'') True
                  \<lparr>db = [bob, alice], trace = []\<rparr> = (Resolved (Some r'), s')
        \<and> recoveryToken r' \<noteq> None
        \<and> recoveryTokenExpiryAt r' = Some 86401000
        \<and> 1000 < (86401000 :: int)
        \<and> recoveredAt r' = None
        \<and> ident r' = 1
        \<and> db s' = [bob, r'])"
proof -
  let ?w = "world_at 1000 None"
  let ?s = "\<lparr>db = [bob, alice], trace = []\<rparr>"
  have h1: "findOne_failure ?w = None" by (simp add: world_at_def)
  have f: "filter (by_email ''a@x.com'') [bob, alice] = [alice]"
    by (simp add: by_email_def bob_def alice_def)
  then have h2: "filter (by_email ''a@x.com'') (db ?s) = [alice]"
    by (simp only: state.select_convs)
  have h3: "\<And>x. save_failure ?w x = None" by (simp add: world_at_def)
  have h4: "0 < tokenLifeSpan (options ?w)" by (simp add: world_at_def)
  from requestRecover_issues_token [OF h1 h2 h3 h4, of True]
  obtain r' s' where
    res: "requestRecover ?w (by_email ''a@x.com'') True ?s = (Resolved (Some r'), s')"
    and tok: "recoveryToken r' \<noteq> None"
    and exp: "recoveryTokenExpiryAt r' = Some (now ?w + tokenLifeSpan (options ?w) * 86400000)"
    and rec: "recoveredAt r' = None"
    and idt: "ident r' = ident alice"
    and st: "db s' = persist r' (db ?s)"
    by blast
  have "recoveryTokenExpiryAt r' = Some 86401000"
    using exp by (simp add: world_at_def)
  moreover have "ident r' = 1" using idt by (simp add: alice_def)
  moreover from this have "db s' = [bob, r']"
    using st by (simp add: bob_def alice_def)
  ultimately show ?thesis using f h4 res tok rec by auto
qed

text \<open>
  C10: when the chain of \<open>requestRecover\<close> fails with an error and a callback was
  passed, the callback receives the error and the promise resolves with \<open>undefined\<close>;
  when no callback was passed the promise rejects with the error. The promise rejects
  only when no callback was passed, and then with the error of the chain.
\<close>

theorem requestRecover_error_delivery:
  "(requestRecover_chain w criteria done s = (Rejected err, s1) \<longrightarrow>
      requestRecover w criteria done s =
        (if done then (Resolved None, s1\<lparr>trace := trace s1 @ [Done_error err]\<rparr>)
         else (Rejected err, s1)))
   \<and> (fst (requestRecover w criteria done s) = Rejected err' \<longrightarrow>
        \<not> done \<and> fst (requestRecover_chain w criteria done s) = Rejected err')"
proof (intro conjI impI)
  assume "requestRecover_chain w criteria done s = (Rejected err, s1)"
  then show "requestRecover w criteria done s =
        (if done then (Resolved None, s1\<lparr>trace := trace s1 @ [Done_error err]\<rparr>)
         else (Rejected err, s1))"
    by (simp add: requestRecover_def catch_p_simps emit_def)
next
  assume rej: "fst (requestRecover w criteria done s) = Rejected err'"
  obtain out s1 where chain: "requestRecover_chain w criteria done s = (out, s1)"
    by (cases "requestRecover_chain w criteria done s")
  from rej chain show "\<not> done"
    by (cases out) (auto simp: requestRecover_def catch_p_simps split: if_splits)
  from rej chain show "fst (requestRecover_chain w criteria done s) = Rejected err'"
    by (cases out) (auto simp: requestRecover_def catch_p_simps split: if_splits)
qed

theorem requestRecover_error_delivery_witness:
  "requestRecover_chain (world_at 1000 None) (by_email ''c@x.com'') True
       \<lparr>db = [bob, alice], trace = []\<rparr>
     = (Rejected (Error ''Invalid recovery details''), \<lparr>db = [bob, alice], trace = []\<rparr>)
   \<and> requestRecover (world_at 1000 None) (by_email ''c@x.com'') True
       \<lparr>db = [bob, alice], trace = []\<rparr>
     = (Resolved None,
        \<lparr>db = [bob, alice], trace = [Done_error (Error ''Invalid recovery details'')]\<rparr>)
   \<and> fst (requestRecover (world_at 1000 None) (by_email ''c@x.com'') False
            \<lparr>db = [bob, alice], trace = []\<rparr>)
     = Rejected (Error ''Invalid recovery details'')
   \<and> fst (requestRecover_chain (world_at 1000 None) (by_email ''c@x.com'') False
            \<lparr>db = [bob, alice], trace = []\<rparr>)
     = Rejected (Error ''Invalid recovery details'')"
proof -
  let ?w = "world_at 1000 None"
  let ?s = "\<lparr>db = [bob, alice], trace = []\<rparr>"
  let ?e = "Error ''Invalid recovery details''"
  have h1: "findOne_failure ?w = None" by (simp add: world_at_def)
  have h2: "find (by_email ''c@x.com'') (db ?s) = None"
    by (simp add: by_email_def bob_def alice_def)
  have chain: "requestRecover_chain ?w (by_email ''c@x.com'') d ?s = (Rejected ?e, ?s)" for d
    by (rule requestRecover_chain_no_match [OF h1 h2])
  note t = requestRecover_error_delivery [of ?w "by_email ''c@x.com''" True ?s ?e ?s ?e]
  note f = requestRecover_error_delivery [of ?w "by_email ''c@x.com''" False ?s ?e ?s ?e]
  from t [THEN conjunct1, THEN mp, OF chain]
  have with_done: "requestRecover ?w (by_email ''c@x.com'') True ?s =
      (Resolved None, \<lparr>db = [bob, alice], trace = [Done_error ?e]\<rparr>)"
    by simp
  from f [THEN conjunct1, THEN mp, OF chain]
  have without: "requestRecover ?w (by_email ''c@x.com'') False ?s = (Rejected ?e, ?s)"
    by simp
  then have rej: "fst (requestRecover ?w (by_email ''c@x.com'') False ?s) = Rejected ?e"
    by simp
  from f [THEN conjunct2, THEN mp, OF rej]
  have "fst (requestRecover_chain ?w (by_email ''c@x.com'') False ?s) = Rejected ?e"
    by simp
  then show ?thesis using chain [of True] with_done rej by simp
qed

subsection \<open>recover\<close>

text \<open>
  C3, as the code has it. Holding a correct, unexpired token is not enough: the entity
  must also be the one that stage 1 returns, the first stored entity whose
  \<open>recoveryToken\<close> the pattern built from the input matches. When the lookup completes
  and returns an entity whose expiry is not before now, the token type is not passcode,
  the tokenizer keyed by the expiry matches the token against the entity's email, and
  hashing and the write succeed, then \<open>recover\<close> resolves with that entity, whose
  \<open>recoveredAt\<close> is now (not null) and whose password is the hash of the new password:
  the new password is handed to \<open>encryptPassword\<close>, its result is the entity saved, and
  no error is reported to the callback.
\<close>

theorem recover_default_mode_succeeds:
  assumes "findOne_failure w = None"
    and "RegExp_i w rawToken = Some token"
    and "find (token_query token) (db s) = Some r"
    and "recoveryTokenExpiryAt r = Some t"
    and "now w \<le> t"
    and "tokenType (options w) \<noteq> Some ''passcode''"
    and "tokenizer_match w (toString t) rawToken (email r)"
    and "hash w newPassword = Inr h"
    and "r' = r\<lparr>password := h, recoveredAt := Some (now w)\<rparr>"
    and "save_failure w r' = None"
  shows "recover w rawToken newPassword done s =
           (Resolved (Some r'),
            s\<lparr>db := persist r' (db s),
              trace := trace s @ [EncryptPassword (r\<lparr>password := newPassword\<rparr>), Save r']
                         @ (if done then [Done_ok r'] else [])\<rparr>)
         \<and> recoveredAt r' = Some (now w) \<and> password r' = h"
  using assms recover_found [of w rawToken token s r t newPassword h "done"]
  by simp

theorem recover_default_mode_succeeds_witness:
  "recoveryTokenExpiryAt alice = Some 86401000
   \<and> now (world_at 2000 None) \<le> 86401000
   \<and> recover (world_at 2000 None) ''t86401000axcom'' ''NewPass1'' True
        \<lparr>db = [bob, alice], trace = []\<rparr> =
     (Resolved (Some (alice\<lparr>password := ''hashedNewPass1'', recoveredAt := Some 2000\<rparr>)),
      \<lparr>db = [bob, alice\<lparr>password := ''hashedNewPass1'', recoveredAt := Some 2000\<rparr>],
       trace = [EncryptPassword (alice\<lparr>password := ''NewPass1''\<rparr>),
                Save (alice\<lparr>password := ''hashedNewPass1'', recoveredAt := Some 2000\<rparr>),
                Done_ok (alice\<lparr>password := ''hashedNewPass1'', recoveredAt := Some 2000\<rparr>)]\<rparr>)"
proof -
  let ?w = "world_at 2000 None"
  let ?s = "\<lparr>db = [bob, alice], trace = []\<rparr>"
  let ?r' = "alice\<lparr>password := ''hashedNewPass1'', recoveredAt := Some 2000\<rparr>"
  have h1: "findOne_failure ?w = None" by (simp add: world_at_def)
  have h2: "RegExp_i ?w ''t86401000axcom'' = Some (literal_test ''t86401000axcom'')"
    by (rule literal_RegExp_i_alice)
  have h3: "find (token_query (literal_test ''t86401000axcom'')) (db ?s) = Some alice"
    by (simp only: state.select_convs lookup_alice)
  have h4: "recoveryTokenExpiryAt alice = Some 86401000" by (simp add: alice_def)
  have h5: "now ?w \<le> 86401000" by (simp add: world_at_def)
  have h6: "tokenType (options ?w) \<noteq> Some ''passcode''" by (simp add: world_at_def)
  have h7: "tokenizer_match ?w (toString 86401000) ''t86401000axcom'' (email alice)"
    by (rule alice_token_matches)
  have h8: "hash ?w ''NewPass1'' = Inr ''hashedNewPass1''" by (simp add: world_at_def)
  have h9: "?r' = alice\<lparr>password := ''hashedNewPass1'', recoveredAt := Some (now ?w)\<rparr>"
    by (simp add: world_at_def)
  have h10: "save_failure ?w ?r' = None" by (simp add: world_at_def)
  from recover_default_mode_succeeds [OF h1 h2 h3 h4 h5 h6 h7 h8 h9 h10, of True]
  have "recover ?w ''t86401000axcom'' ''NewPass1'' True ?s =
     (Resolved (Some ?r'),
      \<lparr>db = [bob, ?r'],
       trace = [EncryptPassword (alice\<lparr>password := ''NewPass1''\<rparr>), Save ?r', Done_ok ?r']\<rparr>)"
    by (simp add: alice_def bob_def)
  with h4 h5 show ?thesis by simp
qed

text \<open>
  C3 as stated fails when another stored entity comes first in the lookup. The second
  entity of the store holds a token that is correct for it and not expired, and
  \<open>recover\<close> is called with that token. The pattern also matches the stored token of the
  first entity, so stage 1 returns the first entity: its password is the one replaced,
  and the holder of the token is left as it was, \<open>recoveredAt\<close> still null.
\<close>

theorem recover_other_entity_first_counterexample:
  "recoveryToken alice = Some ''t86401000axcom''
   \<and> recoveryTokenExpiryAt alice = Some 86401000
   \<and> now (world_at 2000 None) \<le> 86401000
   \<and> tokenizer_match (world_at 2000 None) (toString 86401000) ''t86401000axcom'' (email alice)
   \<and> recover (world_at 2000 None) ''t86401000axcom'' ''NewPass1'' False
        \<lparr>db = [carol, alice], trace = []\<rparr> =
     (Resolved (Some (carol\<lparr>password := ''hashedNewPass1'', recoveredAt := Some 2000\<rparr>)),
      \<lparr>db = [carol\<lparr>password := ''hashedNewPass1'', recoveredAt := Some 2000\<rparr>, alice],
       trace = [EncryptPassword (carol\<lparr>password := ''NewPass1''\<rparr>),
                Save (carol\<lparr>password := ''hashedNewPass1'', recoveredAt := Some 2000\<rparr>)]\<rparr>)"
proof -
  let ?w = "world_at 2000 None"
  let ?s = "\<lparr>db = [carol, alice], trace = []\<rparr>"
  have a1: "recoveryToken alice = Some ''t86401000axcom''" by (simp add: alice_def)
  have a2: "recoveryTokenExpiryAt alice = Some 86401000" by (simp add: alice_def)
  have a3: "now ?w \<le> 86401000" by (simp add: world_at_def)
  have h1: "findOne_failure ?w = None" by (simp add: world_at_def)
  have h3: "find (token_query (literal_test ''t86401000axcom'')) (db ?s) = Some carol"
    by (simp only: state.select_convs lookup_carol_first)
  have h4: "recoveryTokenExpiryAt carol = Some 86401000" by (simp add: carol_def)
  have h5: "hash ?w ''NewPass1'' = Inr ''hashedNewPass1''" by (simp add: world_at_def)
  have h6: "save_failure ?w (carol\<lparr>password := ''hashedNewPass1'', recoveredAt := Some (now ?w)\<rparr>) = None"
    by (simp add: world_at_def)
  from recover_found [OF h1 literal_RegExp_i_alice h3 h4 h5 h6, of False]
  have "recover ?w ''t86401000axcom'' ''NewPass1'' False ?s =
     (Resolved (Some (carol\<lparr>password := ''hashedNewPass1'', recoveredAt := Some 2000\<rparr>)),
      \<lparr>db = [carol\<lparr>password := ''hashedNewPass1'', recoveredAt := Some 2000\<rparr>, alice],
       trace = [EncryptPassword (carol\<lparr>password := ''NewPass1''\<rparr>),
                Save (carol\<lparr>password := ''hashedNewPass1'', recoveredAt := Some 2000\<rparr>)]\<rparr>)"
    by (simp add: world_at_def carol_def)
  with a1 a2 a3 alice_token_matches [of 2000 None] show ?thesis by simp
qed

text \<open>
  C8: when \<open>tokenType\<close> is \<open>passcode\<close>, the token \<open>generateRecoveryToken\<close> stores is the
  six random digits, whatever the expiry and the email are. \<open>recover\<close> then needs only
  that stage 1 finds an entity whose expiry is not before now (and that hashing and the
  write succeed): it resolves with the entity, reports no error, and its result does
  not depend on what the tokenizer's \<open>match\<close> answers.
\<close>

theorem passcode_mode:
  assumes "tokenType (options w) = Some ''passcode''"
    and "findOne_failure w = None"
    and "RegExp_i w rawToken = Some token"
    and "find (token_query token) (db s) = Some r"
    and "recoveryTokenExpiryAt r = Some t"
    and "now w \<le> t"
    and "hash w newPassword = Inr h"
    and "r' = r\<lparr>password := h, recoveredAt := Some (now w)\<rparr>"
    and "save_failure w r' = None"
  shows "getRecoveryToken w expiryAt mail (tokenType (options w)) = randomize w 6
     \<and> length (randomize w 6) = 6 \<and> list_all numeric (randomize w 6)
     \<and> (\<exists>g s1. generateRecoveryToken w u d s0 = (Resolved g, s1)
                \<and> recoveryToken g = Some (randomize w 6))
     \<and> recover w rawToken newPassword done s =
           (Resolved (Some r'),
            s\<lparr>db := persist r' (db s),
              trace := trace s @ [EncryptPassword (r\<lparr>password := newPassword\<rparr>), Save r']
                         @ (if done then [Done_ok r'] else [])\<rparr>)
     \<and> recover (w\<lparr>tokenizer_match := m\<rparr>) rawToken newPassword done s =
         recover w rawToken newPassword done s"
proof -
  have tok: "getRecoveryToken w e a (tokenType (options w)) = randomize w 6" for e a
    using assms(1) by (simp add: getRecoveryToken_def)
  have gen: "\<exists>g s1. generateRecoveryToken w u d s0 = (Resolved g, s1)
                \<and> recoveryToken g = Some (randomize w 6)"
    by (simp add: generateRecoveryToken_eq tok)
  have rec: "recover w rawToken newPassword done s =
           (Resolved (Some r'),
            s\<lparr>db := persist r' (db s),
              trace := trace s @ [EncryptPassword (r\<lparr>password := newPassword\<rparr>), Save r']
                         @ (if done then [Done_ok r'] else [])\<rparr>)"
    using assms recover_found [of w rawToken token s r t newPassword h "done"]
    by simp
  show ?thesis
    using tok gen rec randomize_numeric [of w 6] recover_ignores_tokenizer [OF assms(1)]
    by simp
qed

theorem passcode_mode_witness:
  "getRecoveryToken (world_at 2000 (Some ''passcode'')) 86402000 ''a@x.com''
       (tokenType (options (world_at 2000 (Some ''passcode'')))) = ''307418''
   \<and> recover (world_at 2000 (Some ''passcode'')) ''482913'' ''NewPass1'' False
        \<lparr>db = [bob, alice], trace = []\<rparr> =
     (Resolved (Some (bob\<lparr>password := ''hashedNewPass1'', recoveredAt := Some 2000\<rparr>)),
      \<lparr>db = [bob\<lparr>password := ''hashedNewPass1'', recoveredAt := Some 2000\<rparr>, alice],
       trace = [EncryptPassword (bob\<lparr>password := ''NewPass1''\<rparr>),
                Save (bob\<lparr>password := ''hashedNewPass1'', recoveredAt := Some 2000\<rparr>)]\<rparr>)
   \<and> recover ((world_at 2000 (Some ''passcode''))\<lparr>tokenizer_match := \<lambda>seed tok subject. False\<rparr>)
        ''482913'' ''NewPass1'' False \<lparr>db = [bob, alice], trace = []\<rparr> =
     recover (world_at 2000 (Some ''passcode'')) ''482913'' ''NewPass1'' False
        \<lparr>db = [bob, alice], trace = []\<rparr>"
proof -
  let ?w = "world_at 2000 (Some ''passcode'')"
  let ?s = "\<lparr>db = [bob, alice], trace = []\<rparr>"
  let ?r' = "bob\<lparr>password := ''hashedNewPass1'', recoveredAt := Some 2000\<rparr>"
  have h1: "tokenType (options ?w) = Some ''passcode''" by (simp add: world_at_def)
  have h2: "findOne_failure ?w = None" by (simp add: world_at_def)
  have h3: "RegExp_i ?w ''482913'' = Some (literal_test ''482913'')"
    by (rule literal_RegExp_i_bob)
  have h4: "find (token_query (literal_test ''482913'')) (db ?s) = Some bob"
    by (simp only: state.select_convs lookup_bob)
  have h5: "recoveryTokenExpiryAt bob = Some 86400400" by (simp add: bob_def)
  have h6: "now ?w \<le> 86400400" by (simp add: world_at_def)
  have h7: "hash ?w ''NewPass1'' = Inr ''hashedNewPass1''" by (simp add: world_at_def)
  have h8: "?r' = bob\<lparr>password := ''hashedNewPass1'', recoveredAt := Some (now ?w)\<rparr>"
    by (simp add: world_at_def)
  have h9: "save_failure ?w ?r' = None" by (simp add: world_at_def)
  note p = passcode_mode [OF h1 h2 h3 h4 h5 h6 h7 h8 h9,
      of 86402000 "''a@x.com''" alice False ?s False "\<lambda>seed tok subject. False"]
  have r6: "randomize ?w 6 = ''307418''"
    by (rule randomize_passcode)
  from p have a: "getRecoveryToken ?w 86402000 ''a@x.com'' (tokenType (options ?w)) = ''307418''"
    using r6 by simp
  from p have b: "recover ?w ''482913'' ''NewPass1'' False ?s =
     (Resolved (Some ?r'),
      \<lparr>db = [?r', alice],
       trace = [EncryptPassword (bob\<lparr>password := ''NewPass1''\<rparr>), Save ?r']\<rparr>)"
    by (simp add: bob_def)
  from p have c: "recover (?w\<lparr>tokenizer_match := \<lambda>seed tok subject. False\<rparr>)
        ''482913'' ''NewPass1'' False ?s = recover ?w ''482913'' ''NewPass1'' False ?s"
    by blast
  from a b c show ?thesis by blast
qed

text \<open>
  C2, as the code has it. Each error that stages 1 to 3 detect is handed to the
  callback, when one is passed, and for the errors of stages 2 and 3 the chain goes on.
  When the lookup completes and finds nothing, the callback receives
  \<open>Invalid recovery token\<close>. When it returns an entity whose expiry is set, and hashing
  and the write succeed, an expired token and a tokenizer mismatch are each reported to
  the callback and the later stages run all the same: the password is replaced and
  hashed, \<open>recoveredAt\<close> is set, the entity is saved and the promise resolves with it.
\<close>

theorem recover_reports_and_continues:
  assumes "findOne_failure w = None"
    and "RegExp_i w rawToken = Some token"
  shows "(find (token_query token) (db s) = Some r
          \<and> recoveryTokenExpiryAt r = Some t
          \<and> hash w newPassword = Inr h
          \<and> r' = r\<lparr>password := h, recoveredAt := Some (now w)\<rparr>
          \<and> save_failure w r' = None \<longrightarrow>
          recover w rawToken newPassword done s =
            (Resolved (Some r'),
             s\<lparr>db := persist r' (db s),
               trace := trace s
                 @ (if done \<and> t < now w
                    then [Done_error (Error ''Recovery token expired'')] else [])
                 @ (if done \<and> tokenType (options w) \<noteq> Some ''passcode''
                       \<and> \<not> tokenizer_match w (toString t) rawToken (email r)
                    then [Done_error (Error ''Invalid recovery token'')] else [])
                 @ [EncryptPassword (r\<lparr>password := newPassword\<rparr>), Save r']
                 @ (if done then [Done_ok r'] else [])\<rparr>))
       \<and> (find (token_query token) (db s) = None \<longrightarrow>
          (\<exists>rest. trace (snd (recover w rawToken newPassword True s)) =
                    trace s @ Done_error (Error ''Invalid recovery token'') # rest))"
proof (intro conjI impI)
  assume a: "find (token_query token) (db s) = Some r
          \<and> recoveryTokenExpiryAt r = Some t
          \<and> hash w newPassword = Inr h
          \<and> r' = r\<lparr>password := h, recoveredAt := Some (now w)\<rparr>
          \<and> save_failure w r' = None"
  then have f: "find (token_query token) (db s) = Some r"
    and e: "recoveryTokenExpiryAt r = Some t"
    and hh: "hash w newPassword = Inr h"
    and r': "r' = r\<lparr>password := h, recoveredAt := Some (now w)\<rparr>"
    and sv: "save_failure w r' = None"
    by blast+
  from sv have sv': "save_failure w (r\<lparr>password := h, recoveredAt := Some (now w)\<rparr>) = None"
    unfolding r' .
  show "recover w rawToken newPassword done s =
            (Resolved (Some r'),
             s\<lparr>db := persist r' (db s),
               trace := trace s
                 @ (if done \<and> t < now w
                    then [Done_error (Error ''Recovery token expired'')] else [])
                 @ (if done \<and> tokenType (options w) \<noteq> Some ''passcode''
                       \<and> \<not> tokenizer_match w (toString t) rawToken (email r)
                    then [Done_error (Error ''Invalid recovery token'')] else [])
                 @ [EncryptPassword (r\<lparr>password := newPassword\<rparr>), Save r']
                 @ (if done then [Done_ok r'] else [])\<rparr>)"
    unfolding r' by (rule recover_found [OF assms f e hh sv'])
next
  assume "find (token_query token) (db s) = None"
  from recover_not_found [OF assms this, of newPassword True]
  show "\<exists>rest. trace (snd (recover w rawToken newPassword True s)) =
                trace s @ Done_error (Error ''Invalid recovery token'') # rest"
    by simp
qed

text \<open>
  A token that is expired and is not the one the tokenizer issues (\<open>T86401000AXCOM\<close>
  is found by the case-insensitive lookup and fails the exact match): each error
  reaches the callback and the password is replaced all the same. A token that no
  stored entity carries: the callback receives the error of stage 1.
\<close>

theorem recover_reports_and_continues_witness:
  "recover (world_at 90000000 None) ''T86401000AXCOM'' ''NewPass1'' True
        \<lparr>db = [bob, alice], trace = []\<rparr> =
     (Resolved (Some (alice\<lparr>password := ''hashedNewPass1'', recoveredAt := Some 90000000\<rparr>)),
      \<lparr>db = [bob, alice\<lparr>password := ''hashedNewPass1'', recoveredAt := Some 90000000\<rparr>],
       trace = [Done_error (Error ''Recovery token expired''),
                Done_error (Error ''Invalid recovery token''),
                EncryptPassword (alice\<lparr>password := ''NewPass1''\<rparr>),
                Save (alice\<lparr>password := ''hashedNewPass1'', recoveredAt := Some 90000000\<rparr>),
                Done_ok (alice\<lparr>password := ''hashedNewPass1'', recoveredAt := Some 90000000\<rparr>)]\<rparr>)
   \<and> find (token_query (literal_test ''zzz'')) [bob, alice] = None
   \<and> (\<exists>rest. trace (snd (recover (world_at 90000000 None) ''zzz'' ''NewPass1'' True
                            \<lparr>db = [bob, alice], trace = []\<rparr>)) =
               Done_error (Error ''Invalid recovery token'') # rest)"
proof -
  let ?w = "world_at 90000000 None"
  let ?s = "\<lparr>db = [bob, alice], trace = []\<rparr>"
  let ?r' = "alice\<lparr>password := ''hashedNewPass1'', recoveredAt := Some 90000000\<rparr>"
  have h1: "findOne_failure ?w = None" by (simp add: world_at_def)
  have h2: "RegExp_i ?w ''T86401000AXCOM'' = Some (literal_test ''T86401000AXCOM'')"
    by (simp add: world_at_def literal_RegExp_i_def alphanumeric_def)
  have g2: "RegExp_i ?w ''zzz'' = Some (literal_test ''zzz'')"
    by (rule literal_RegExp_i_zzz)
  have h3: "find (token_query (literal_test ''T86401000AXCOM'')) (db ?s) = Some alice
          \<and> recoveryTokenExpiryAt alice = Some 86401000
          \<and> hash ?w ''NewPass1'' = Inr ''hashedNewPass1''
          \<and> ?r' = alice\<lparr>password := ''hashedNewPass1'', recoveredAt := Some (now ?w)\<rparr>
          \<and> save_failure ?w ?r' = None"
    by (simp add: world_at_def token_query_def literal_test_def bob_def alice_def
          toLowerCase_def)
  have g3: "find (token_query (literal_test ''zzz'')) (db ?s) = None"
    by (simp only: state.select_convs lookup_zzz)
  have nomatch: "\<not> tokenizer_match ?w (toString 86401000) ''T86401000AXCOM'' (email alice)"
    by (simp add: world_at_def toString_86401000 concat_match_def concat_encrypt_def)
  from recover_reports_and_continues [OF h1 h2, THEN conjunct1, THEN mp, OF h3, of True]
  have a: "recover ?w ''T86401000AXCOM'' ''NewPass1'' True ?s =
     (Resolved (Some ?r'),
      \<lparr>db = [bob, ?r'],
       trace = [Done_error (Error ''Recovery token expired''),
                Done_error (Error ''Invalid recovery token''),
                EncryptPassword (alice\<lparr>password := ''NewPass1''\<rparr>), Save ?r', Done_ok ?r']\<rparr>)"
    using nomatch by (simp add: world_at_def alice_def bob_def)
  from recover_reports_and_continues [OF h1 g2, THEN conjunct2, THEN mp, OF g3, of "''NewPass1''"]
  have b: "\<exists>rest. trace (snd (recover ?w ''zzz'' ''NewPass1'' True ?s)) =
               Done_error (Error ''Invalid recovery token'') # rest"
    by simp
  from a lookup_zzz b show ?thesis by blast
qed

text \<open>
  C2 as stated fails at a lookup miss: the stages after the miss do not all run. With
  a token that no stored entity carries, the chain ends in stage 2 with a rejection;
  the trace holds the two callback invocations and no hashing or save, and the stored
  documents are as they were.
\<close>

theorem recover_lookup_miss_stops_counterexample:
  "recover (world_at 2000 None) ''zzz'' ''NewPass1'' True \<lparr>db = [bob, alice], trace = []\<rparr> =
     (Rejected TypeError,
      \<lparr>db = [bob, alice],
       trace = [Done_error (Error ''Invalid recovery token''), Done_error TypeError]\<rparr>)"
proof -
  let ?w = "world_at 2000 None"
  let ?s = "\<lparr>db = [bob, alice], trace = []\<rparr>"
  have h1: "findOne_failure ?w = None" by (simp add: world_at_def)
  have h3: "find (token_query (literal_test ''zzz'')) (db ?s) = None"
    by (simp only: state.select_convs lookup_zzz)
  from recover_not_found [OF h1 literal_RegExp_i_zzz h3, of "''NewPass1''" True]
  show ?thesis by simp
qed

text \<open>
  C1 does not hold of the code. A token whose expiry (86401000) lies before now
  (90000000) is presented without a callback: \<open>recover\<close> resolves with the entity, and
  the stored password has been replaced by the hash of the new one.
\<close>

theorem recover_expired_token_replaces_password:
  "recover (world_at 90000000 None) ''t86401000axcom'' ''NewPass1'' False
        \<lparr>db = [bob, alice], trace = []\<rparr> =
     (Resolved (Some (alice\<lparr>password := ''hashedNewPass1'', recoveredAt := Some 90000000\<rparr>)),
      \<lparr>db = [bob, alice\<lparr>password := ''hashedNewPass1'', recoveredAt := Some 90000000\<rparr>],
       trace = [EncryptPassword (alice\<lparr>password := ''NewPass1''\<rparr>),
                Save (alice\<lparr>password := ''hashedNewPass1'', recoveredAt := Some 90000000\<rparr>)]\<rparr>)"
proof -
  let ?w = "world_at 90000000 None"
  let ?s = "\<lparr>db = [bob, alice], trace = []\<rparr>"
  have h1: "findOne_failure ?w = None" by (simp add: world_at_def)
  have h3: "find (token_query (literal_test ''t86401000axcom'')) (db ?s) = Some alice"
    by (simp only: state.select_convs lookup_alice)
  have h4: "recoveryTokenExpiryAt alice = Some 86401000" by (simp add: alice_def)
  have h5: "hash ?w ''NewPass1'' = Inr ''hashedNewPass1''" by (simp add: world_at_def)
  have h6: "save_failure ?w (alice\<lparr>password := ''hashedNewPass1'', recoveredAt := Some (now ?w)\<rparr>) = None"
    by (simp add: world_at_def)
  from recover_found [OF h1 literal_RegExp_i_alice h3 h4 h5 h6, of False]
  show ?thesis by (simp add: world_at_def alice_def bob_def)
qed

text \<open>
  C9 does not hold of the code where it says that a lookup miss fails with
  \<open>Invalid recovery token\<close>. A token that no stored entity carries is presented without a
  callback: the promise rejects with the \<open>TypeError\<close> of stage 2, and the error that
  stage 1 built reaches nobody.
\<close>

theorem recover_lookup_miss_rejects_TypeError:
  "find (token_query (literal_test ''zzz'')) [bob, alice] = None
   \<and> recover (world_at 2000 None) ''zzz'' ''NewPass1'' False \<lparr>db = [bob, alice], trace = []\<rparr> =
     (Rejected TypeError, \<lparr>db = [bob, alice], trace = []\<rparr>)"
proof -
  let ?w = "world_at 2000 None"
  let ?s = "\<lparr>db = [bob, alice], trace = []\<rparr>"
  have h1: "findOne_failure ?w = None" by (simp add: world_at_def)
  have h3: "find (token_query (literal_test ''zzz'')) (db ?s) = None"
    by (simp only: state.select_convs lookup_zzz)
  from recover_not_found [OF h1 literal_RegExp_i_zzz h3, of "''NewPass1''" False]
  show ?thesis using lookup_zzz by simp
qed

end
